theory Spec2Isabelle
  imports Complex_Main
begin

section \<open>Python values, exceptions and loops\<close>

text \<open>
  The program is \<^verbatim>\<open>tools/python/ezdxf_normalize.py\<close>. Python floats are modelled as
  \<^typ>\<open>real\<close>: \<^verbatim>\<open>math.cos\<close>, \<^verbatim>\<open>math.sin\<close>, \<^verbatim>\<open>math.pi\<close> and \<^verbatim>\<open>math.hypot\<close> are the
  functions of analysis, without rounding. A point is a Python list of floats, so a
  \<^typ>\<open>real list\<close>; reading a component that is not there raises \<^verbatim>\<open>IndexError\<close>.
  Every exception of the source is a value \<open>Inl ex\<close> of the model.
\<close>

datatype error = AttributeError | IndexError | ValueError | ZeroDivisionError

definition andthen :: "error + 'a \<Rightarrow> ('a \<Rightarrow> error + 'b) \<Rightarrow> error + 'b" where
  "andthen m f = (case m of Inl ex \<Rightarrow> Inl ex | Inr v \<Rightarrow> f v)"

text \<open>\<^verbatim>\<open>e.dxf.attr\<close>: an attribute the entity does not carry raises.\<close>

definition getattr :: "'a option \<Rightarrow> error + 'a" where
  "getattr a = (case a of None \<Rightarrow> Inl AttributeError | Some v \<Rightarrow> Inr v)"

text \<open>\<^verbatim>\<open>xs[i]\<close> for a literal index \<open>i \<ge> 0\<close>.\<close>

definition getitem :: "'a list \<Rightarrow> nat \<Rightarrow> error + 'a" where
  "getitem xs i = (if i < length xs then Inr (xs ! i) else Inl IndexError)"

text \<open>\<^verbatim>\<open>xs[i]\<close> for a computed index: a negative index counts from the end.\<close>

definition getitem_int :: "'a list \<Rightarrow> int \<Rightarrow> error + 'a" where
  "getitem_int xs i =
     (if 0 \<le> i \<and> i < int (length xs) then Inr (xs ! nat i)
      else if i < 0 \<and> - int (length xs) \<le> i then Inr (xs ! nat (int (length xs) + i))
      else Inl IndexError)"

text \<open>\<^verbatim>\<open>a / b\<close> on numbers.\<close>

definition truediv :: "real \<Rightarrow> real \<Rightarrow> error + real" where
  "truediv a b = (if b = 0 then Inl ZeroDivisionError else Inr (a / b))"

text \<open>\<^verbatim>\<open>int(x)\<close> of a float truncates towards zero.\<close>

definition trunc :: "real \<Rightarrow> int" where
  "trunc x = (if 0 \<le> x then \<lfloor>x\<rfloor> else \<lceil>x\<rceil>)"

text \<open>\<^verbatim>\<open>range(n)\<close>: empty when \<open>n \<le> 0\<close>.\<close>

definition py_range :: "int \<Rightarrow> int list" where
  "py_range n = map int [0..<nat n]"

text \<open>
  A \<^verbatim>\<open>for\<close> loop (or a list comprehension) that appends one value per element and
  stops at the first exception.
\<close>

fun mapM :: "('a \<Rightarrow> error + 'b) \<Rightarrow> 'a list \<Rightarrow> error + 'b list" where
  "mapM f [] = Inr []"
| "mapM f (x # xs) = andthen (f x) (\<lambda>y. andthen (mapM f xs) (\<lambda>ys. Inr (y # ys)))"

section \<open>The affine transform\<close>

definition radians :: "real \<Rightarrow> real" where
  "radians d = d * (pi / 180)"

definition rot_point :: "real \<Rightarrow> real \<Rightarrow> real \<Rightarrow> real \<times> real" where
  "rot_point x y ang_deg =
     (let ang = radians ang_deg;
          ca = cos ang;
          sa = sin ang;
          rx = x * ca - y * sa;
          ry = x * sa + y * ca
      in (rx, ry))"

definition transform_point ::
  "real list \<Rightarrow> real list \<Rightarrow> real \<Rightarrow> real \<Rightarrow> real \<Rightarrow> error + real list" where
  "transform_point pt insert_pt sx sy rotation =
     andthen (getitem pt 0) (\<lambda>p0. let x = p0 * sx in
     andthen (getitem pt 1) (\<lambda>p1. let y = p1 * sy in
     (case rot_point x y rotation of (rx, ry) \<Rightarrow>
     andthen (getitem insert_pt 0) (\<lambda>i0.
     andthen (getitem insert_pt 1) (\<lambda>i1.
     Inr [rx + i0, ry + i1])))))"

section \<open>The curve samplers\<close>

text \<open>
  A keyword parameter with a default (\<^verbatim>\<open>segments=36\<close>, \<^verbatim>\<open>segments=48\<close>) is an
  \<^typ>\<open>int option\<close>: \<open>None\<close> when the caller leaves it out.
\<close>

definition sample_arc ::
  "real \<Rightarrow> real \<Rightarrow> real \<Rightarrow> real \<Rightarrow> real \<Rightarrow> int option \<Rightarrow> error + real list list" where
  "sample_arc cx cy r start_deg end_deg segments_arg =
     (let segments = (case segments_arg of None \<Rightarrow> 36 | Some n \<Rightarrow> n);
          start = radians start_deg;
          end0 = radians end_deg;
          end1 = (if end0 < start then end0 + 2 * pi else end0)
      in mapM (\<lambda>i. andthen (truediv (of_int i) (of_int segments)) (\<lambda>q.
                 let t = start + (end1 - start) * q
                 in Inr [cx + r * cos t, cy + r * sin t]))
           (py_range (segments + 1)))"

definition sample_circle ::
  "real \<Rightarrow> real \<Rightarrow> real \<Rightarrow> int option \<Rightarrow> error + real list list" where
  "sample_circle cx cy r segments_arg =
     (let segments = (case segments_arg of None \<Rightarrow> 48 | Some n \<Rightarrow> n)
      in andthen
           (mapM (\<lambda>i. andthen (truediv (2 * pi * of_int i) (of_int segments)) (\<lambda>t.
                    Inr [cx + r * cos t, cy + r * sin t]))
              (py_range segments))
           (\<lambda>pts. Inr (if length pts > 0 then pts @ [pts ! 0] else pts)))"

section \<open>Output records, diagnostics and entities\<close>

text \<open>
  A record of the output list \<^verbatim>\<open>out\<close>: the dictionaries with \<^verbatim>\<open>"type"\<close> equal to
  \<^verbatim>\<open>"polyline"\<close>, \<^verbatim>\<open>"circle"\<close> (cx, cy, r) and \<^verbatim>\<open>"arc"\<close> (cx, cy, r, start, end).
\<close>

datatype geometry =
    Polyline "real list list"
  | Circle real real real
  | Arc real real real real real

text \<open>
  A line printed to \<^verbatim>\<open>sys.stderr\<close>. \<open>Processing\<close>, \<open>Expanding\<close> and \<open>Ignored\<close> are the
  lines printed only under \<^verbatim>\<open>--verbose\<close>; \<open>Warning what ex\<close> is the line an
  \<^verbatim>\<open>except\<close> handler prints, \<open>BlockNotFound\<close> the warning for a missing block.
\<close>

datatype diagnostic =
    Processing string
  | Warning string error
  | Expanding string "real list" real real real
  | BlockNotFound string
  | Ignored string

fun is_warning :: "diagnostic \<Rightarrow> bool" where
  "is_warning (Warning what ex) = True"
| "is_warning (BlockNotFound name) = True"
| "is_warning d = False"

text \<open>
  An entity as the program reads it: its \<^verbatim>\<open>dxftype()\<close> and the attributes the branch
  of that type reads. An attribute is \<open>None\<close> when the entity does not carry it.
  \<open>LINE start end\<close>; \<open>LWPOLYLINE\<close> with the tuples of \<^verbatim>\<open>get_points()\<close>; \<open>POLYLINE\<close> with
  the \<^verbatim>\<open>dxf.x\<close> and \<^verbatim>\<open>dxf.y\<close> of each vertex; \<open>CIRCLE center radius\<close>;
  \<open>ARC center radius start_angle end_angle\<close>; \<open>ELLIPSE center major_axis ratio\<close>;
  \<open>SPLINE fit_points control_points\<close>; \<open>INSERT name insert xscale yscale rotation\<close>;
  \<open>OTHER t\<close> for every other type \<open>t\<close>.
\<close>

datatype entity =
    LINE "real list option" "real list option"
  | LWPOLYLINE "real list list"
  | POLYLINE "(real option \<times> real option) list"
  | CIRCLE "real list option" "real option"
  | ARC "real list option" "real option" "real option" "real option"
  | ELLIPSE "real list option" "real list option" "real option"
  | SPLINE "real list list option" "real list list option"
  | INSERT "string option" "real list option" "real option" "real option" "real option"
  | OTHER string

fun dxftype :: "entity \<Rightarrow> string" where
  "dxftype (LINE s e) = ''LINE''"
| "dxftype (LWPOLYLINE ps) = ''LWPOLYLINE''"
| "dxftype (POLYLINE vs) = ''POLYLINE''"
| "dxftype (CIRCLE c r) = ''CIRCLE''"
| "dxftype (ARC c r sa ea) = ''ARC''"
| "dxftype (ELLIPSE c m q) = ''ELLIPSE''"
| "dxftype (SPLINE f c) = ''SPLINE''"
| "dxftype (INSERT n i sx sy rot) = ''INSERT''"
| "dxftype (OTHER t) = t"

text \<open>\<^verbatim>\<open>parent_transform\<close>: the tuple \<^verbatim>\<open>(insert_pt, sx, sy, rotation)\<close>, or \<^verbatim>\<open>None\<close>.\<close>

type_synonym transform = "real list \<times> real \<times> real \<times> real"

type_synonym state = "geometry list \<times> diagnostic list"

section \<open>The branches of \<open>process_entity\<close>\<close>

definition spline_to_poly ::
  "real list list option \<Rightarrow> real list list option \<Rightarrow> int option
     \<Rightarrow> real list list \<times> diagnostic list" where
  "spline_to_poly fit_points control_points segments_arg =
     (let segments = (case segments_arg of None \<Rightarrow> 48 | Some n \<Rightarrow> n);
          body =
            (case fit_points of
               Some (p # ps) \<Rightarrow> Inr (p # ps)
             | _ \<Rightarrow>
               (let control = (case control_points of None \<Rightarrow> [] | Some c \<Rightarrow> c)
                in if control \<noteq> []
                   then mapM (\<lambda>i. andthen (truediv (of_int i) (of_int segments)) (\<lambda>q.
                           getitem_int control
                             (trunc (q * of_int (int (length control) - 1)))))
                          (py_range (segments + 1))
                   else Inr []))
      in case body of
           Inl ex \<Rightarrow> ([], [Warning ''spline_to_poly failed'' ex])
         | Inr pts \<Rightarrow> (pts, []))"

text \<open>
  \<^verbatim>\<open>[transform_point(p, *parent_transform) for p in pts]\<close> under
  \<^verbatim>\<open>if parent_transform:\<close>; a tuple of four is never falsy.
\<close>

definition transform_all :: "transform option \<Rightarrow> real list list \<Rightarrow> error + real list list" where
  "transform_all parent_transform pts =
     (case parent_transform of
        None \<Rightarrow> Inr pts
      | Some (insert_pt, sx, sy, rotation) \<Rightarrow>
          mapM (\<lambda>p. transform_point p insert_pt sx sy rotation) pts)"

text \<open>
  \<^verbatim>\<open>[transform_point([p[0] + cx, p[1] + cy], *parent_transform) for p in pts]\<close>, the
  comprehension of the CIRCLE and ARC branches.
\<close>

definition transform_shifted ::
  "transform \<Rightarrow> real \<Rightarrow> real \<Rightarrow> real list list \<Rightarrow> error + real list list" where
  "transform_shifted parent_transform cx cy pts =
     (case parent_transform of (insert_pt, sx, sy, rotation) \<Rightarrow>
        mapM (\<lambda>p. andthen (getitem p 0) (\<lambda>p0. andthen (getitem p 1) (\<lambda>p1.
                transform_point [p0 + cx, p1 + cy] insert_pt sx sy rotation))) pts)"

text \<open>
  Each \<open>process_T\<close> is the body of the \<^verbatim>\<open>try\<close> of the branch for type \<open>T\<close>: \<open>Inl ex\<close> when
  it raises, \<open>Inr recs\<close> with the records it appends to \<^verbatim>\<open>out\<close> otherwise. In every
  branch the appends are the last statements of the body, after everything that can
  raise, so a body that raises has appended nothing.
\<close>

definition process_LINE ::
  "transform option \<Rightarrow> real list option \<Rightarrow> real list option \<Rightarrow> error + geometry list" where
  "process_LINE parent_transform start_attr end_attr =
     andthen (getattr start_attr) (\<lambda>s. andthen (getitem s 0) (\<lambda>s0.
     andthen (getitem s 1) (\<lambda>s1.
     andthen (getattr end_attr) (\<lambda>e. andthen (getitem e 0) (\<lambda>e0.
     andthen (getitem e 1) (\<lambda>e1.
       (case parent_transform of
          None \<Rightarrow> Inr [Polyline [[s0, s1], [e0, e1]]]
        | Some (insert_pt, sx, sy, rotation) \<Rightarrow>
            andthen (transform_point [s0, s1] insert_pt sx sy rotation) (\<lambda>start.
            andthen (transform_point [e0, e1] insert_pt sx sy rotation) (\<lambda>end1.
            Inr [Polyline [start, end1]])))))))))"

text \<open>\<^verbatim>\<open>for (x, y, *rest) in pts_raw\<close>: a tuple of fewer than two values does not unpack.\<close>

definition unpack_xy :: "real list \<Rightarrow> error + real list" where
  "unpack_xy p = (case p of x # y # rest \<Rightarrow> Inr [x, y] | _ \<Rightarrow> Inl ValueError)"

definition process_LWPOLYLINE ::
  "transform option \<Rightarrow> real list list \<Rightarrow> error + geometry list" where
  "process_LWPOLYLINE parent_transform pts_raw =
     andthen (mapM unpack_xy pts_raw) (\<lambda>pts.
     andthen (transform_all parent_transform pts) (\<lambda>pts1.
     Inr [Polyline pts1]))"

definition vertex_xy :: "real option \<times> real option \<Rightarrow> error + real list" where
  "vertex_xy v = andthen (getattr (fst v)) (\<lambda>x. andthen (getattr (snd v)) (\<lambda>y. Inr [x, y]))"

definition process_POLYLINE ::
  "transform option \<Rightarrow> (real option \<times> real option) list \<Rightarrow> error + geometry list" where
  "process_POLYLINE parent_transform vertices =
     andthen (mapM vertex_xy vertices) (\<lambda>pts.
     andthen (transform_all parent_transform pts) (\<lambda>pts1.
     Inr (if pts1 \<noteq> [] then [Polyline pts1] else [])))"

definition process_CIRCLE ::
  "int \<Rightarrow> transform option \<Rightarrow> real list option \<Rightarrow> real option \<Rightarrow> error + geometry list" where
  "process_CIRCLE approx_segs parent_transform center radius =
     andthen (getattr center) (\<lambda>c. andthen (getitem c 0) (\<lambda>cx.
     andthen (getitem c 1) (\<lambda>cy.
     andthen (getattr radius) (\<lambda>r.
       (case parent_transform of
          Some t \<Rightarrow>
            andthen (sample_circle 0 0 r (Some approx_segs)) (\<lambda>pts.
            andthen (transform_shifted t cx cy pts) (\<lambda>pts1.
            Inr [Polyline pts1, Circle cx cy r]))
        | None \<Rightarrow>
            andthen (sample_circle cx cy r (Some approx_segs)) (\<lambda>pts.
            Inr [Polyline pts, Circle cx cy r]))))))"

definition process_ARC ::
  "int \<Rightarrow> transform option \<Rightarrow> real list option \<Rightarrow> real option \<Rightarrow> real option \<Rightarrow> real option
     \<Rightarrow> error + geometry list" where
  "process_ARC approx_segs parent_transform center radius start_angle end_angle =
     andthen (getattr center) (\<lambda>c. andthen (getitem c 0) (\<lambda>cx.
     andthen (getitem c 1) (\<lambda>cy.
     andthen (getattr radius) (\<lambda>r.
     andthen (getattr start_angle) (\<lambda>sa.
     andthen (getattr end_angle) (\<lambda>ea.
       (case parent_transform of
          Some t \<Rightarrow>
            andthen (sample_arc 0 0 r sa ea (Some approx_segs)) (\<lambda>pts.
            andthen (transform_shifted t cx cy pts) (\<lambda>pts1.
            Inr [Polyline pts1, Arc cx cy r sa ea]))
        | None \<Rightarrow>
            andthen (sample_arc cx cy r sa ea (Some approx_segs)) (\<lambda>pts.
            Inr [Polyline pts, Arc cx cy r sa ea]))))))))"

text \<open>\<^verbatim>\<open>math.hypot(a, b)\<close>.\<close>

definition hypot :: "real \<Rightarrow> real \<Rightarrow> real" where
  "hypot a b = sqrt (a * a + b * b)"

definition process_ELLIPSE ::
  "int \<Rightarrow> transform option \<Rightarrow> real list option \<Rightarrow> real list option \<Rightarrow> real option
     \<Rightarrow> error + geometry list" where
  "process_ELLIPSE approx_segs parent_transform center major_axis ratio_attr =
     andthen (getattr center) (\<lambda>c. andthen (getitem c 0) (\<lambda>cx.
     andthen (getitem c 1) (\<lambda>cy.
     andthen (getattr major_axis) (\<lambda>maj. andthen (getitem maj 0) (\<lambda>m0.
     andthen (getitem maj 1) (\<lambda>m1. let rx = hypot m0 m1 in
     andthen (getattr ratio_attr) (\<lambda>ratio. let ry = rx * ratio in
     andthen (mapM (\<lambda>i. andthen (truediv (2 * pi * of_int i) (of_int approx_segs)) (\<lambda>a.
                      Inr [cx + rx * cos a, cy + ry * sin a]))
                (py_range approx_segs)) (\<lambda>pts.
     andthen (transform_all parent_transform pts) (\<lambda>pts1.
     Inr [Polyline pts1])))))))))"

definition process_SPLINE :: "transform option \<Rightarrow> real list list \<Rightarrow> error + geometry list" where
  "process_SPLINE parent_transform pts =
     andthen (transform_all parent_transform pts) (\<lambda>pts1.
     Inr (if pts1 \<noteq> [] then [Polyline pts1] else []))"

text \<open>
  The INSERT branch up to the block lookup: the name and the placement
  \<^verbatim>\<open>(insert_pt, sx, sy, rotation)\<close>; \<^verbatim>\<open>getattr(e.dxf, "xscale", 1.0)\<close> and its two
  siblings fall back on a default.
\<close>

definition insert_placement ::
  "string option \<Rightarrow> real list option \<Rightarrow> real option \<Rightarrow> real option \<Rightarrow> real option
     \<Rightarrow> error + string \<times> transform" where
  "insert_placement name_attr insert_attr xscale yscale rotation_attr =
     andthen (getattr name_attr) (\<lambda>name.
     andthen (getattr insert_attr) (\<lambda>ins. andthen (getitem ins 0) (\<lambda>i0.
     andthen (getitem ins 1) (\<lambda>i1.
       let insert_pt = [i0, i1];
           sx = (case xscale of None \<Rightarrow> 1 | Some v \<Rightarrow> v);
           sy = (case yscale of None \<Rightarrow> 1 | Some v \<Rightarrow> v);
           rotation = (case rotation_attr of None \<Rightarrow> 0 | Some v \<Rightarrow> v)
       in Inr (name, (insert_pt, sx, sy, rotation))))))"

text \<open>\<^verbatim>\<open>if verbose: print(...)\<close>.\<close>

definition trace :: "bool \<Rightarrow> diagnostic \<Rightarrow> state \<Rightarrow> state" where
  "trace verbose d st = (if verbose then (fst st, snd st @ [d]) else st)"

text \<open>
  \<^verbatim>\<open>try: body except Exception as ex: print("Warning: " + what + str(ex))\<close>, the body
  given by its outcome.
\<close>

definition try_except :: "string \<Rightarrow> error + geometry list \<Rightarrow> state \<Rightarrow> state" where
  "try_except what body st =
     (case body of
        Inl ex \<Rightarrow> (fst st, snd st @ [Warning what ex])
      | Inr recs \<Rightarrow> (fst st @ recs, snd st))"

section \<open>\<open>process_entity\<close> and \<open>main\<close>\<close>

text \<open>
  \<open>process_entity\<close> takes the state \<open>(out, log)\<close> and returns the new one. Blocks may
  refer to each other in a cycle, and then the recursion of the source does not
  bottom out: the first argument bounds the depth of nested INSERT expansions, and the
  result is \<open>None\<close> when an expansion would go deeper. Nothing else consumes it.
  \<open>process_entities\<close> is the loop \<^verbatim>\<open>for be in blk: process_entity(be, ...)\<close>.
  No branch lets an exception escape, so the \<^verbatim>\<open>try\<close> of \<^verbatim>\<open>main\<close> around each
  top-level call never fires and the loop of \<^verbatim>\<open>main\<close> is the same loop.
\<close>

fun process_entity ::
  "nat \<Rightarrow> entity \<Rightarrow> state \<Rightarrow> int \<Rightarrow> bool \<Rightarrow> bool \<Rightarrow> (string \<Rightarrow> entity list option)
     \<Rightarrow> transform option \<Rightarrow> state option"
and process_entities ::
  "nat \<Rightarrow> entity list \<Rightarrow> state \<Rightarrow> int \<Rightarrow> bool \<Rightarrow> bool \<Rightarrow> (string \<Rightarrow> entity list option)
     \<Rightarrow> transform option \<Rightarrow> state option" where
  "process_entity fuel e st approx_segs explode_blocks verbose doc parent_transform =
     (let t = dxftype e;
          st1 = trace verbose (Processing t) st
      in case e of
           LINE s en \<Rightarrow>
             Some (try_except ''LINE processing error'' (process_LINE parent_transform s en) st1)
         | LWPOLYLINE ps \<Rightarrow>
             Some (try_except ''LWPOLYLINE error'' (process_LWPOLYLINE parent_transform ps) st1)
         | POLYLINE vs \<Rightarrow>
             Some (try_except ''POLYLINE error'' (process_POLYLINE parent_transform vs) st1)
         | CIRCLE c r \<Rightarrow>
             Some (try_except ''CIRCLE error''
                     (process_CIRCLE approx_segs parent_transform c r) st1)
         | ARC c r sa ea \<Rightarrow>
             Some (try_except ''ARC error''
                     (process_ARC approx_segs parent_transform c r sa ea) st1)
         | ELLIPSE c m q \<Rightarrow>
             Some (try_except ''ELLIPSE error''
                     (process_ELLIPSE approx_segs parent_transform c m q) st1)
         | SPLINE f c \<Rightarrow>
             (let sp = spline_to_poly f c (Some approx_segs);
                  st2 = (fst st1, snd st1 @ snd sp)
              in Some (try_except ''SPLINE error''
                         (process_SPLINE parent_transform (fst sp)) st2))
         | INSERT n i xs ys rot \<Rightarrow>
             (if explode_blocks
              then (case insert_placement n i xs ys rot of
                      Inl ex \<Rightarrow>
                        Some (fst st1, snd st1 @ [Warning ''INSERT expansion failed'' ex])
                    | Inr (name, insert_pt, sx, sy, rotation) \<Rightarrow>
                        (let st2 = trace verbose (Expanding name insert_pt sx sy rotation) st1
                         in case doc name of
                              None \<Rightarrow> Some (fst st2, snd st2 @ [BlockNotFound name])
                            | Some blk \<Rightarrow>
                                (case fuel of
                                   0 \<Rightarrow> None
                                 | Suc depth \<Rightarrow>
                                     process_entities depth blk st2 approx_segs
                                       explode_blocks verbose doc
                                       (Some (insert_pt, sx, sy, rotation)))))
              else Some (trace verbose (Ignored t) st1))
         | OTHER u \<Rightarrow> Some (trace verbose (Ignored t) st1))"
| "process_entities fuel [] st approx_segs explode_blocks verbose doc parent_transform = Some st"
| "process_entities fuel (be # bes) st approx_segs explode_blocks verbose doc parent_transform =
     (case process_entity fuel be st approx_segs explode_blocks verbose doc parent_transform of
        None \<Rightarrow> None
      | Some st1 \<Rightarrow>
          process_entities fuel bes st1 approx_segs explode_blocks verbose doc parent_transform)"

text \<open>
  The command line: \<^verbatim>\<open>--approx-segs\<close> (\<open>None\<close> when it is not given; its argparse
  default is 36), \<^verbatim>\<open>--explode-inserts\<close> and \<^verbatim>\<open>--verbose\<close>.
\<close>

record args =
  args_approx_segs :: "int option"
  args_explode_inserts :: bool
  args_verbose :: bool

record document =
  modelspace :: "entity list"
  blocks :: "string \<Rightarrow> entity list option"

definition parsed_approx_segs :: "args \<Rightarrow> int" where
  "parsed_approx_segs a = (case args_approx_segs a of None \<Rightarrow> 36 | Some n \<Rightarrow> n)"

text \<open>
  \<open>main\<close> from the loaded document to the list it hands to \<^verbatim>\<open>json.dump\<close>, with the
  lines it printed; reading the file and writing the JSON are left out.
\<close>

definition main :: "nat \<Rightarrow> args \<Rightarrow> document \<Rightarrow> state option" where
  "main fuel a doc =
     process_entities fuel (modelspace doc) ([], []) (parsed_approx_segs a)
       (args_explode_inserts a) (args_verbose a) (blocks doc) None"

section \<open>Properties of the affine transform\<close>

lemma transform_point_pair:
  "transform_point [x, y] [tx, ty] sx sy rotation =
     Inr [x * sx * cos (radians rotation) - y * sy * sin (radians rotation) + tx,
          x * sx * sin (radians rotation) + y * sy * cos (radians rotation) + ty]"
  by (simp add: transform_point_def andthen_def getitem_def rot_point_def Let_def)

text \<open>
  Claim C4. \<open>transform_point\<close> scales each axis on its own, rotates the scaled point
  about the origin with the standard rotation matrix (\<open>rot_point\<close>, the angle turned
  from degrees into radians), then adds the translation; and the transform with scale
  \<open>(2, 1)\<close>, rotation 90 degrees and translation \<open>(5, 5)\<close> sends \<open>(1, 0)\<close> to \<open>(5, 7)\<close>.
\<close>

theorem C4_transform_point_scale_rotate_translate:
  "transform_point [x, y] [tx, ty] sx sy rotation =
     Inr [fst (rot_point (x * sx) (y * sy) rotation) + tx,
          snd (rot_point (x * sx) (y * sy) rotation) + ty]
   \<and> rot_point u v rotation =
       (u * cos (rotation * pi / 180) - v * sin (rotation * pi / 180),
        u * sin (rotation * pi / 180) + v * cos (rotation * pi / 180))
   \<and> transform_point [1, 0] [5, 5] 2 1 90 = Inr [5, 7]"
  by (simp add: transform_point_def andthen_def getitem_def rot_point_def Let_def radians_def)

end
